theory Spec2Isabelle
  imports Main
begin

section \<open>Errors raised by the modelled code\<close>

text \<open>
  Every exception that the Python sources raise, or let through from the
  framework, is a value of this type. A function that may raise returns
  \<open>error + 'a\<close>, with \<open>Inl\<close> for the exception.
\<close>

datatype error =
    BadRequestError string
  | ValueError string
  | NotImplementedError
  | KeyError string
  | AttributeError
  | DoesNotExist
  | MultipleObjectsReturned
  | InvalidMoveToDescendant
  | FrameworkError string

section \<open>wagtail/admin/api/filters.py\<close>

text \<open>
  A row of the listing endpoint's queryset. \<open>numchild\<close> is the stored child
  count of a page (a non-negative column), \<open>for_explorer\<close> the explorer flag
  that \<open>ForExplorerFilter\<close> filters on.
\<close>

record listed_page =
  listed_id :: int
  numchild :: nat
  for_explorer :: bool

text \<open>
  \<open>request.GET\<close> is read as a dictionary from parameter names to the value
  that subscripting returns. \<open>parse_boolean\<close> lives in
  \<open>wagtail.api.v2.utils\<close>, outside the modules embedded here, so both filters take it
  as a parameter: \<open>None\<close> stands for the \<open>ValueError\<close> it raises.
\<close>

type_synonym query_dict = "string \<rightharpoonup> string"
type_synonym boolean_parser = "string \<Rightarrow> bool option"

definition quoted :: "string \<Rightarrow> string" where
  "quoted s = [CHR 0x27] @ s @ [CHR 0x27]"

definition must_be_true_or_false :: "string \<Rightarrow> string" where
  "must_be_true_or_false name =
     name @ '' must be '' @ quoted ''true'' @ '' or '' @ quoted ''false''"

definition HasChildrenFilter_filter_queryset ::
  "boolean_parser \<Rightarrow> query_dict \<Rightarrow> listed_page list \<Rightarrow> error + listed_page list" where
  "HasChildrenFilter_filter_queryset parse_boolean GET queryset =
     (case GET ''has_children'' of
        Some v \<Rightarrow>
          (case parse_boolean v of
             None \<Rightarrow> Inl (BadRequestError (must_be_true_or_false ''has_children''))
           | Some has_children_filter \<Rightarrow>
               if has_children_filter = True
               then Inr (filter (\<lambda>p. numchild p > 0) queryset)
               else Inr (filter (\<lambda>p. numchild p = 0) queryset))
      | None \<Rightarrow> Inr queryset)"

definition ForExplorerFilter_filter_queryset ::
  "boolean_parser \<Rightarrow> query_dict \<Rightarrow> listed_page list \<Rightarrow> error + listed_page list" where
  "ForExplorerFilter_filter_queryset parse_boolean GET queryset =
     (case GET ''for_explorer'' of
        Some v \<Rightarrow>
          (case parse_boolean v of
             None \<Rightarrow> Inl (BadRequestError (must_be_true_or_false ''for_explorer''))
           | Some for_explorer_filter \<Rightarrow>
               if for_explorer_filter = True
               then Inr (filter (\<lambda>p. for_explorer p = True) queryset)
               else Inr queryset)
      | None \<Rightarrow> Inr queryset)"

text \<open>
  Modelled from the spec: \<open>parse_boolean\<close> of \<open>wagtail.api.v2.utils\<close> is not
  among the modules embedded here. The error messages of both filters name the
  encodings \<open>'true'\<close> and \<open>'false'\<close>; this parser accepts exactly those two and
  rejects every other string. It is used for concrete evaluations only: the
  theorems about the filters hold for every parser.
\<close>

definition parse_boolean :: boolean_parser where
  "parse_boolean v =
     (if v = ''true'' then Some True
      else if v = ''false'' then Some False
      else None)"

definition sample_listing :: "listed_page list" where
  "sample_listing =
     [\<lparr>listed_id = 1, numchild = 2, for_explorer = True\<rparr>,
      \<lparr>listed_id = 2, numchild = 0, for_explorer = False\<rparr>,
      \<lparr>listed_id = 3, numchild = 0, for_explorer = True\<rparr>]"

section \<open>wagtail/admin/mail.py\<close>

subsection \<open>Users, messages and what the framework provides\<close>

text \<open>
  A row of the user table together with the three notification preferences
  of its \<open>UserProfile\<close>. Two user objects are equal when their primary keys
  are, as for any model instance.
\<close>

record user =
  pk :: int
  email :: string
  is_active :: bool
  is_superuser :: bool
  groups :: "int list"
  submitted_notifications :: bool
  approved_notifications :: bool
  rejected_notifications :: bool

text \<open>
  \<open>send_notification\<close> hands address strings to \<open>send_mail\<close>, while
  \<open>send_emails\<close> hands over the user objects themselves.
\<close>

datatype recipient = Address string | UserObject user

record mail_message =
  subject :: string
  body :: string
  from_email :: string
  recipients_to :: "recipient list"
  cc :: "recipient list"
  bcc :: "recipient list"
  extra_headers :: "(string \<times> string) list"

datatype py_value = PyNone | PyBool bool

fun truthy :: "py_value \<Rightarrow> bool" where
  "truthy PyNone = False"
| "truthy (PyBool b) = b"

datatype ctx_value =
    CStr string
  | CSettings
  | CRevision int
  | CPage int
  | CContentType int
  | CWorkflow int
  | CTask int
  | CTaskState int
  | CUser user

type_synonym template_context = "string \<rightharpoonup> ctx_value"
type_synonym kwargs = "(string \<times> string option) list"
type_synonym outbox = "mail_message list"

text \<open>
  Everything the module imports from Django, from the settings and from
  other wagtail modules is a field of this record, so that the functions
  below are stated for every behaviour of those parts:
  the two settings read by the module, the optional
  \<open>WAGTAILADMIN_NOTIFICATION_INCLUDE_SUPERUSERS\<close> (\<open>None\<close> when unset), the
  user table behind \<open>get_user_model().objects\<close>, template rendering and the
  message constructor (both may raise), \<open>users_with_page_permission\<close> and
  \<open>camelcase_to_underscore\<close>.
\<close>

record framework =
  DEFAULT_FROM_EMAIL :: string
  SITE_ROOT_URL :: string
  WAGTAILADMIN_NOTIFICATION_INCLUDE_SUPERUSERS :: "bool option"
  auth_users :: "user list"
  render_to_string :: "string \<Rightarrow> template_context \<Rightarrow> error + string"
  EmailMultiAlternatives ::
    "string \<Rightarrow> string \<Rightarrow> string \<Rightarrow> recipient list \<Rightarrow> kwargs \<Rightarrow> error + mail_message"
  users_with_page_permission :: "string \<Rightarrow> int \<Rightarrow> user option \<Rightarrow> user list"
  camelcase_to_underscore :: "string \<Rightarrow> string"

text \<open>
  \<open>email.send()\<close>: Django delivers a message unless it has no recipient at
  all, in which case nothing is sent. Delivery appends to the outbox.
\<close>

definition email_send :: "mail_message \<Rightarrow> outbox \<Rightarrow> outbox" where
  "email_send m sent = (if recipients_to m @ cc m @ bcc m = [] then sent else sent @ [m])"

text \<open>
  \<open>str.strip()\<close> removes leading and trailing whitespace. A character is
  read as a code point below 256; the whitespace code points in that range
  are 0x09 to 0x0D, 0x1C to 0x20, 0x85 and 0xA0.
\<close>

definition is_space :: "char \<Rightarrow> bool" where
  "is_space c = (c \<in> set [CHR 0x09, CHR 0x0A, CHR 0x0B, CHR 0x0C, CHR 0x0D,
                          CHR 0x1C, CHR 0x1D, CHR 0x1E, CHR 0x1F, CHR 0x20,
                          CHR 0x85, CHR 0xA0])"

definition strip :: "string \<Rightarrow> string" where
  "strip s = rev (dropWhile is_space (rev (dropWhile is_space s)))"

subsection \<open>send_mail, send_moderation_notification, send_notification\<close>

definition send_mail ::
  "framework \<Rightarrow> string \<Rightarrow> string \<Rightarrow> recipient list \<Rightarrow> string option \<Rightarrow> kwargs
     \<Rightarrow> outbox \<Rightarrow> (error + py_value) \<times> outbox" where
  "send_mail fw subject' message recipient_list from_email' kw sent =
     (let from_email'' = (case from_email' of None \<Rightarrow> DEFAULT_FROM_EMAIL fw | Some f \<Rightarrow> f)
      in case EmailMultiAlternatives fw subject' message from_email'' recipient_list kw of
           Inl e \<Rightarrow> (Inl e, sent)
         | Inr email' \<Rightarrow>
             (Inr PyNone,
              email_send (email'\<lparr>extra_headers := [(''Auto-Submitted'', ''auto-generated'')]\<rparr>) sent))"

definition send_notification ::
  "framework \<Rightarrow> user list \<Rightarrow> string \<Rightarrow> template_context \<Rightarrow> outbox \<Rightarrow> (error + py_value) \<times> outbox" where
  "send_notification fw recipient_users notification' extra_context sent =
     (let recipient_emails = map email (filter (\<lambda>u. email u \<noteq> []) recipient_users)
      in if recipient_emails = [] then (Inr PyNone, sent)
         else
           let template_name = ''wagtailadmin/notifications/'' @ notification' @ ''.txt''
           in case render_to_string fw
                     (''wagtailadmin/notifications/'' @ notification' @ ''.subject.txt'') Map.empty of
                Inl e \<Rightarrow> (Inl e, sent)
              | Inr rendered \<Rightarrow>
                  let subject' = strip rendered;
                      context' = [''SITE_ROOT_URL'' \<mapsto> CStr (SITE_ROOT_URL fw)] ++ extra_context
                  in case render_to_string fw template_name context' of
                       Inl e \<Rightarrow> (Inl e, sent)
                     | Inr message \<Rightarrow>
                         (case send_mail fw subject' message (map Address recipient_emails)
                                 None [] sent of
                            (Inl e, sent') \<Rightarrow> (Inl e, sent')
                          | (Inr _, sent') \<Rightarrow> (Inr PyNone, sent')))"

record revision =
  revision_id :: int
  revision_page :: int
  content_type :: int
  content_type_name :: string

definition moderation_context :: "framework \<Rightarrow> revision \<Rightarrow> template_context" where
  "moderation_context fw revision' =
     [''revision'' \<mapsto> CRevision (revision_id revision'),
      ''page'' \<mapsto> CPage (revision_page revision'),
      ''content_type'' \<mapsto> CContentType (content_type revision'),
      ''content_type_name'' \<mapsto> CStr (content_type_name revision'),
      ''content_type_name_lower'' \<mapsto>
         CStr (camelcase_to_underscore fw (content_type_name revision'))]"

definition send_moderation_notification ::
  "framework \<Rightarrow> revision \<Rightarrow> string \<Rightarrow> user option \<Rightarrow> outbox \<Rightarrow> (error + py_value) \<times> outbox" where
  "send_moderation_notification fw revision' notification' excluded_user sent =
     (case (if notification' = ''submitted_for_moderation''
            then Inr (users_with_page_permission fw ''change'' (revision_page revision') excluded_user)
            else if notification' = ''approved_moderation''
            then Inr (users_with_page_permission fw ''publish'' (revision_page revision') excluded_user)
            else if notification' = ''rejected_moderation''
            then Inr (users_with_page_permission fw ''change'' (revision_page revision') excluded_user)
            else Inl (ValueError ''Unknown notification type'')) of
        Inl e \<Rightarrow> (Inl e, sent)
      | Inr recipient_users \<Rightarrow>
          send_notification fw recipient_users notification'
            (moderation_context fw revision') sent)"

subsection \<open>Notifier classes\<close>

datatype task = GroupApprovalTask int "int list" | OtherTask int

fun task_id :: "task \<Rightarrow> int" where
  "task_id (GroupApprovalTask i gs) = i"
| "task_id (OtherTask i) = i"

record task_state =
  task_state_id :: int
  task_of :: task
  task_state_page :: int
  task_state_comment :: string

record workflow_state =
  workflow_state_id :: int
  workflow_state_page :: int
  workflow :: int
  requested_by :: user
  current_task_state :: task_state

datatype instance_class = WorkflowState | TaskState

text \<open>
  The signal sender: a workflow state, a task state, or an object of some
  other class, of which only the class name matters.
\<close>

datatype signal_sender =
    A_WorkflowState workflow_state
  | A_TaskState task_state
  | Another_object string

datatype notifier =
    Notifier "instance_class list"
  | WorkflowStateApprovalEmailNotifier
  | WorkflowStateRejectionEmailNotifier
  | WorkflowStateSubmissionEmailNotifier
  | GroupApprovalTaskStateSubmissionEmailNotifier

fun notification :: "notifier \<Rightarrow> string" where
  "notification (Notifier cs) = []"
| "notification WorkflowStateApprovalEmailNotifier = ''approved''"
| "notification WorkflowStateRejectionEmailNotifier = ''rejected''"
| "notification WorkflowStateSubmissionEmailNotifier = ''submitted''"
| "notification GroupApprovalTaskStateSubmissionEmailNotifier = ''submitted''"

definition template_directory :: string where
  "template_directory = ''wagtailadmin/notifications/''"

fun valid_classes :: "notifier \<Rightarrow> instance_class list" where
  "valid_classes (Notifier cs) = cs"
| "valid_classes GroupApprovalTaskStateSubmissionEmailNotifier = [TaskState]"
| "valid_classes _ = [WorkflowState]"

fun isinstance :: "signal_sender \<Rightarrow> instance_class list \<Rightarrow> bool" where
  "isinstance (A_WorkflowState ws) cs = (WorkflowState \<in> set cs)"
| "isinstance (A_TaskState ts) cs = (TaskState \<in> set cs)"
| "isinstance (Another_object name) cs = False"

fun type_name :: "signal_sender \<Rightarrow> string" where
  "type_name (A_WorkflowState ws) = ''WorkflowState''"
| "type_name (A_TaskState ts) = ''TaskState''"
| "type_name (Another_object name) = name"

fun is_GroupApprovalTask :: "task \<Rightarrow> bool" where
  "is_GroupApprovalTask (GroupApprovalTask i gs) = True"
| "is_GroupApprovalTask (OtherTask i) = False"

fun can_handle :: "notifier \<Rightarrow> signal_sender \<Rightarrow> bool" where
  "can_handle GroupApprovalTaskStateSubmissionEmailNotifier inst =
     (case inst of
        A_TaskState ts \<Rightarrow>
          isinstance inst (valid_classes GroupApprovalTaskStateSubmissionEmailNotifier)
          \<and> is_GroupApprovalTask (task_of ts)
      | _ \<Rightarrow> False)"
| "can_handle n inst = isinstance inst (valid_classes n)"

text \<open>
  Querysets over the user table are lists of rows. \<open>exclude\<close> and \<open>filter\<close>
  return a new queryset and leave the one they are called on as it was;
  \<open>|\<close> keeps the rows of the table that either operand selects.
\<close>

definition objects_none :: "user list" where
  "objects_none = []"

definition filter_is_superuser :: "framework \<Rightarrow> user list" where
  "filter_is_superuser fw = filter (\<lambda>u. is_superuser u = True) (auth_users fw)"

definition filter_groups_in :: "framework \<Rightarrow> int list \<Rightarrow> user list" where
  "filter_groups_in fw gs = filter (\<lambda>u. \<exists>g \<in> set (groups u). g \<in> set gs) (auth_users fw)"

definition queryset_or :: "framework \<Rightarrow> user list \<Rightarrow> user list \<Rightarrow> user list" where
  "queryset_or fw a b = filter (\<lambda>u. u \<in> set a \<or> u \<in> set b) (auth_users fw)"

definition exclude_pk :: "int \<Rightarrow> user list \<Rightarrow> user list" where
  "exclude_pk k qs = filter (\<lambda>u. pk u \<noteq> k) qs"

definition include_superusers :: "framework \<Rightarrow> bool" where
  "include_superusers fw =
     (case WAGTAILADMIN_NOTIFICATION_INCLUDE_SUPERUSERS fw of None \<Rightarrow> True | Some b \<Rightarrow> b)"

text \<open>\<open>requested_by != triggering_user\<close>, where the latter may be \<open>None\<close>.\<close>

definition differs_from :: "user \<Rightarrow> user option \<Rightarrow> bool" where
  "differs_from u triggering_user =
     (case triggering_user of None \<Rightarrow> True | Some t \<Rightarrow> pk u \<noteq> pk t)"

definition WorkflowStateApproval_get_recipient_users ::
  "workflow_state \<Rightarrow> user option \<Rightarrow> user list" where
  "WorkflowStateApproval_get_recipient_users ws triggering_user =
     (let recipients = [];
          requested_by' = requested_by ws
      in if differs_from requested_by' triggering_user then [requested_by'] else recipients)"

definition WorkflowStateRejection_get_recipient_users ::
  "workflow_state \<Rightarrow> user option \<Rightarrow> user list" where
  "WorkflowStateRejection_get_recipient_users ws triggering_user =
     (let recipients = [];
          requested_by' = requested_by ws
      in if differs_from requested_by' triggering_user then [requested_by'] else recipients)"

text \<open>
  In the submission notifier the queryset that \<open>exclude\<close> returns is not
  assigned to anything: \<open>recipients\<close> is returned as it was before the call.
\<close>

definition WorkflowStateSubmission_get_recipient_users ::
  "framework \<Rightarrow> user option \<Rightarrow> user list" where
  "WorkflowStateSubmission_get_recipient_users fw triggering_user =
     (let recipients = objects_none;
          recipients = (if include_superusers fw then filter_is_superuser fw else recipients);
          dropped = (case triggering_user of
                       Some t \<Rightarrow> exclude_pk (pk t) recipients
                     | None \<Rightarrow> recipients)
      in recipients)"

definition BaseGroupApprovalTaskState_get_recipient_users ::
  "framework \<Rightarrow> int list \<Rightarrow> user option \<Rightarrow> user list" where
  "BaseGroupApprovalTaskState_get_recipient_users fw task_groups triggering_user =
     (let group_members = filter_groups_in fw task_groups;
          recipients = group_members;
          recipients = (if include_superusers fw
                        then queryset_or fw recipients (filter_is_superuser fw)
                        else recipients);
          recipients = (case triggering_user of
                          Some t \<Rightarrow> exclude_pk (pk t) recipients
                        | None \<Rightarrow> recipients)
      in recipients)"

text \<open>
  Method dispatch. An attribute read on an object of the wrong class, and a
  call of \<open>get_recipient_users\<close> on the plain \<open>Notifier\<close>, which has no such
  method, raise \<open>AttributeError\<close>.
\<close>

fun get_recipient_users ::
  "framework \<Rightarrow> notifier \<Rightarrow> signal_sender \<Rightarrow> user option \<Rightarrow> error + user list" where
  "get_recipient_users fw WorkflowStateApprovalEmailNotifier (A_WorkflowState ws) kw_user =
     Inr (WorkflowStateApproval_get_recipient_users ws kw_user)"
| "get_recipient_users fw WorkflowStateRejectionEmailNotifier (A_WorkflowState ws) kw_user =
     Inr (WorkflowStateRejection_get_recipient_users ws kw_user)"
| "get_recipient_users fw WorkflowStateSubmissionEmailNotifier inst kw_user =
     Inr (WorkflowStateSubmission_get_recipient_users fw kw_user)"
| "get_recipient_users fw GroupApprovalTaskStateSubmissionEmailNotifier
       (A_TaskState ts) kw_user =
     (case task_of ts of
        GroupApprovalTask i gs \<Rightarrow>
          Inr (BaseGroupApprovalTaskState_get_recipient_users fw gs kw_user)
      | OtherTask i \<Rightarrow> Inl AttributeError)"
| "get_recipient_users fw n inst kw_user = Inl AttributeError"

fun notifications_enabled :: "notifier \<Rightarrow> user \<Rightarrow> bool" where
  "notifications_enabled WorkflowStateApprovalEmailNotifier u = approved_notifications u"
| "notifications_enabled WorkflowStateRejectionEmailNotifier u = rejected_notifications u"
| "notifications_enabled WorkflowStateSubmissionEmailNotifier u = submitted_notifications u"
| "notifications_enabled GroupApprovalTaskStateSubmissionEmailNotifier u =
     submitted_notifications u"
| "notifications_enabled (Notifier cs) u = False"

fun get_valid_recipients ::
  "framework \<Rightarrow> notifier \<Rightarrow> signal_sender \<Rightarrow> user option \<Rightarrow> error + user list" where
  "get_valid_recipients fw (Notifier cs) inst kw_user = Inr []"
| "get_valid_recipients fw n inst kw_user =
     (case get_recipient_users fw n inst kw_user of
        Inl e \<Rightarrow> Inl e
      | Inr users \<Rightarrow>
          Inr (filter (\<lambda>recipient'. is_active recipient' \<and> email recipient' \<noteq> []
                                   \<and> notifications_enabled n recipient') users))"

definition get_template_base_prefix :: "framework \<Rightarrow> signal_sender \<Rightarrow> string" where
  "get_template_base_prefix fw inst = camelcase_to_underscore fw (type_name inst) @ ''_''"

fun get_template_set :: "framework \<Rightarrow> notifier \<Rightarrow> signal_sender \<Rightarrow> string \<rightharpoonup> string" where
  "get_template_set fw (Notifier cs) inst =
     (let template_base = get_template_base_prefix fw inst @ notification (Notifier cs);
          template_text = template_directory @ template_base @ ''.txt''
      in [''text'' \<mapsto> template_text])"
| "get_template_set fw n inst =
     (let template_base = get_template_base_prefix fw inst @ notification n;
          template_subject = template_directory @ template_base @ ''_subject.txt'';
          template_text = template_directory @ template_base @ ''.txt'';
          template_html = template_directory @ template_base @ ''.html''
      in [''subject'' \<mapsto> template_subject, ''text'' \<mapsto> template_text,
          ''html'' \<mapsto> template_html])"

definition Notifier_get_context :: template_context where
  "Notifier_get_context = [''settings'' \<mapsto> CSettings]"

definition BaseWorkflowState_get_context :: "workflow_state \<Rightarrow> template_context" where
  "BaseWorkflowState_get_context ws =
     Notifier_get_context
       (''page'' \<mapsto> CPage (workflow_state_page ws), ''workflow'' \<mapsto> CWorkflow (workflow ws))"

fun get_context :: "notifier \<Rightarrow> signal_sender \<Rightarrow> error + template_context" where
  "get_context (Notifier cs) inst = Inr Notifier_get_context"
| "get_context WorkflowStateApprovalEmailNotifier (A_WorkflowState ws) =
     Inr (BaseWorkflowState_get_context ws)"
| "get_context WorkflowStateRejectionEmailNotifier (A_WorkflowState ws) =
     (let task_state' = current_task_state ws
      in Inr ((BaseWorkflowState_get_context ws)
                (''task'' \<mapsto> CTask (task_id (task_of task_state')),
                 ''task_state'' \<mapsto> CTaskState (task_state_id task_state'),
                 ''comment'' \<mapsto> CStr (task_state_comment task_state'))))"
| "get_context WorkflowStateSubmissionEmailNotifier (A_WorkflowState ws) =
     Inr ((BaseWorkflowState_get_context ws)(''requested_by'' \<mapsto> CUser (requested_by ws)))"
| "get_context GroupApprovalTaskStateSubmissionEmailNotifier (A_TaskState ts) =
     Inr (Notifier_get_context
            (''page'' \<mapsto> CPage (task_state_page ts),
             ''task'' \<mapsto> CTask (task_id (task_of ts))))"
| "get_context n inst = Inl AttributeError"

definition send_emails ::
  "framework \<Rightarrow> (string \<rightharpoonup> string) \<Rightarrow> template_context \<Rightarrow> user list \<Rightarrow> outbox
     \<Rightarrow> (error + py_value) \<times> outbox" where
  "send_emails fw template_set context' recipients sent =
     (case template_set ''subject'' of
        None \<Rightarrow> (Inl (KeyError ''subject''), sent)
      | Some t_subject \<Rightarrow>
     (case render_to_string fw t_subject context' of
        Inl e \<Rightarrow> (Inl e, sent)
      | Inr rendered \<Rightarrow>
     (let subject' = strip rendered in
      case template_set ''text'' of
        None \<Rightarrow> (Inl (KeyError ''text''), sent)
      | Some t_text \<Rightarrow>
     (case render_to_string fw t_text context' of
        Inl e \<Rightarrow> (Inl e, sent)
      | Inr text' \<Rightarrow>
     (case (case template_set ''html'' of
              None \<Rightarrow> Inr None
            | Some t_html \<Rightarrow>
                (case render_to_string fw t_html context' of
                   Inl e \<Rightarrow> Inl e
                 | Inr h \<Rightarrow> Inr (Some h))) of
        Inl e \<Rightarrow> (Inl e, sent)
      | Inr html \<Rightarrow>
          (case send_mail fw subject' text' (map UserObject recipients) None
                  [(''html_message'', html)] sent of
             (Inl e, sent') \<Rightarrow> (Inl e, sent')
           | (Inr _, sent') \<Rightarrow> (Inr PyNone, sent')))))))"

fun send_notifications ::
  "framework \<Rightarrow> notifier \<Rightarrow> (string \<rightharpoonup> string) \<Rightarrow> template_context \<Rightarrow> user list \<Rightarrow> outbox
     \<Rightarrow> (error + py_value) \<times> outbox" where
  "send_notifications fw (Notifier cs) template_set context' recipients sent =
     (Inl NotImplementedError, sent)"
| "send_notifications fw n template_set context' recipients sent =
     send_emails fw template_set context' recipients sent"

text \<open>\<open>Notifier.__call__\<close>; the only keyword argument that is read is \<open>user\<close>.\<close>

definition call ::
  "framework \<Rightarrow> notifier \<Rightarrow> signal_sender \<Rightarrow> user option \<Rightarrow> outbox
     \<Rightarrow> (error + py_value) \<times> outbox" where
  "call fw n inst kw_user sent =
     (if \<not> can_handle n inst then (Inr (PyBool False), sent)
      else case get_valid_recipients fw n inst kw_user of
             Inl e \<Rightarrow> (Inl e, sent)
           | Inr recipients \<Rightarrow>
               if recipients = [] then (Inr (PyBool True), sent)
               else
                 let template_set = get_template_set fw n inst
                 in case get_context n inst of
                      Inl e \<Rightarrow> (Inl e, sent)
                    | Inr context' \<Rightarrow>
                        send_notifications fw n template_set context' recipients sent)"

subsection \<open>Concrete values for evaluation\<close>

definition alice :: user where
  "alice = \<lparr>pk = 1, email = ''alice@example.com'', is_active = True, is_superuser = True,
            groups = [], submitted_notifications = True, approved_notifications = True,
            rejected_notifications = True\<rparr>"

definition bob :: user where
  "bob = \<lparr>pk = 2, email = ''bob@example.com'', is_active = True, is_superuser = False,
          groups = [7], submitted_notifications = True, approved_notifications = True,
          rejected_notifications = True\<rparr>"

definition carol :: user where
  "carol = \<lparr>pk = 3, email = [], is_active = True, is_superuser = False,
            groups = [7], submitted_notifications = True, approved_notifications = True,
            rejected_notifications = True\<rparr>"

definition plain_message ::
  "string \<Rightarrow> string \<Rightarrow> string \<Rightarrow> recipient list \<Rightarrow> kwargs \<Rightarrow> error + mail_message" where
  "plain_message s b f rs kw =
     Inr \<lparr>subject = s, body = b, from_email = f, recipients_to = rs, cc = [], bcc = [],
          extra_headers = []\<rparr>"

definition sample_framework :: framework where
  "sample_framework =
     \<lparr>DEFAULT_FROM_EMAIL = ''webmaster@localhost'',
      SITE_ROOT_URL = ''http://localhost'',
      WAGTAILADMIN_NOTIFICATION_INCLUDE_SUPERUSERS = None,
      auth_users = [alice, bob, carol],
      render_to_string = (\<lambda>name ctx. Inr name),
      EmailMultiAlternatives = plain_message,
      users_with_page_permission = (\<lambda>perm page' excluded.
         filter (\<lambda>u. case excluded of None \<Rightarrow> True | Some x \<Rightarrow> pk u \<noteq> pk x) [alice, bob, carol]),
      camelcase_to_underscore = (\<lambda>s. s)\<rparr>"

definition sample_task_state :: task_state where
  "sample_task_state =
     \<lparr>task_state_id = 5, task_of = GroupApprovalTask 4 [7], task_state_page = 10,
      task_state_comment = []\<rparr>"

definition sample_workflow_state :: workflow_state where
  "sample_workflow_state =
     \<lparr>workflow_state_id = 6, workflow_state_page = 10, workflow = 3, requested_by = bob,
      current_task_state = sample_task_state\<rparr>"

definition sample_revision :: revision where
  "sample_revision =
     \<lparr>revision_id = 11, revision_page = 10, content_type = 2,
      content_type_name = ''SimplePage''\<rparr>"

section \<open>The page tree and the management commands\<close>

text \<open>
  A page with its stored columns and, in place of the tree columns, the list
  of its children in the order \<open>get_children()\<close> yields them. The database is
  the list of root nodes that \<open>Page.get_root_nodes()\<close> yields.
\<close>

datatype page =
  Page (page_id: int) (title: string) (slug: string) (url_path: string)
       (get_children: "page list")

subsection \<open>wagtail/management/commands/set_url_paths.py\<close>

text \<open>
  \<open>set_subtree\<close> assigns the path of \<open>root\<close>, saves it, and then visits the
  children read from the database with the saved \<open>root\<close> as their parent. The
  result is the subtree as it is stored once the call has returned.
\<close>

fun set_subtree :: "page \<Rightarrow> page option \<Rightarrow> page" where
  "set_subtree (Page i t s u cs) parent =
     (let u' = (case parent of None \<Rightarrow> ''/'' | Some p \<Rightarrow> url_path p @ s @ ''/'');
          root = Page i t s u' cs
      in Page i t s u' (map (\<lambda>child. set_subtree child (Some root)) cs))"

definition set_url_paths_handle :: "page list \<Rightarrow> page list" where
  "set_url_paths_handle root_nodes = map (\<lambda>node. set_subtree node None) root_nodes"

subsection \<open>Rows, parent links and lookup by id\<close>

text \<open>All rows of the page table, and all pairs of a page and one of its children.\<close>

function all_pages :: "page list \<Rightarrow> page list" where
  "all_pages [] = []"
| "all_pages (Page i t s u cs # ps) = Page i t s u cs # all_pages cs @ all_pages ps"
  by pat_completeness auto
termination
  by (relation "measure (size_list size)") auto

function parent_child :: "page list \<Rightarrow> (page \<times> page) list" where
  "parent_child [] = []"
| "parent_child (Page i t s u cs # ps) =
     map (\<lambda>c. (Page i t s u cs, c)) cs @ parent_child cs @ parent_child ps"
  by pat_completeness auto
termination
  by (relation "measure (size_list size)") auto

text \<open>
  \<open>Page.objects.get(id=...)\<close>: the single row with that id, \<open>DoesNotExist\<close>
  when there is none and \<open>MultipleObjectsReturned\<close> when there are several.
\<close>

definition objects_get :: "page list \<Rightarrow> int \<Rightarrow> error + page" where
  "objects_get db i =
     (case filter (\<lambda>p. page_id p = i) (all_pages db) of
        [] \<Rightarrow> Inl DoesNotExist
      | [p] \<Rightarrow> Inr p
      | _ \<Rightarrow> Inl MultipleObjectsReturned)"

definition occurrences :: "int \<Rightarrow> page list \<Rightarrow> nat" where
  "occurrences k db = length (filter (\<lambda>p. page_id p = k) (all_pages db))"

subsection \<open>wagtail/management/commands/move_pages.py\<close>

function remove_subtree :: "int \<Rightarrow> page list \<Rightarrow> page list" where
  "remove_subtree k [] = []"
| "remove_subtree k (Page i t s u cs # ps) =
     (if i = k then remove_subtree k ps
      else Page i t s u (remove_subtree k cs) # remove_subtree k ps)"
  by pat_completeness auto
termination
  by (relation "measure (\<lambda>(k, ps). size_list size ps)") auto

function add_last_child :: "int \<Rightarrow> page \<Rightarrow> page list \<Rightarrow> page list" where
  "add_last_child k new [] = []"
| "add_last_child k new (Page i t s u cs # ps) =
     Page i t s u (add_last_child k new cs @ (if i = k then [new] else []))
       # add_last_child k new ps"
  by pat_completeness auto
termination
  by (relation "measure (\<lambda>(k, new, ps). size_list size ps)") auto

text \<open>
  Modelled from the spec: \<open>Page.move\<close> is defined in \<open>wagtail.models\<close>, which is
  not among the modules embedded here. The spec says that the command moves a page
  to become the last child of another page: the moved page leaves its old
  place together with its subtree and is appended after the target's
  children. A target inside the moved subtree cannot become its parent; the
  move is then refused.
\<close>

definition Page_move :: "page list \<Rightarrow> page \<Rightarrow> page \<Rightarrow> error + page list" where
  "Page_move db from_page to_page =
     (if page_id to_page \<in> set (map page_id (all_pages [from_page]))
      then Inl InvalidMoveToDescendant
      else Inr (add_last_child (page_id to_page) from_page
                  (remove_subtree (page_id from_page) db)))"

text \<open>
  The line written to standard output,
  \<open>Moved page '%s' (id %d) to '%s' (id %d)\<close>, is kept as its four arguments.
\<close>

datatype stdout_line = Moved_page string int string int

definition move_pages_handle ::
  "page list \<Rightarrow> int \<Rightarrow> int \<Rightarrow> error + page list \<times> stdout_line" where
  "move_pages_handle db from_id to_id =
     (case objects_get db from_id of
        Inl e \<Rightarrow> Inl e
      | Inr from_page \<Rightarrow>
          (case objects_get db to_id of
             Inl e \<Rightarrow> Inl e
           | Inr to_page \<Rightarrow>
               (case Page_move db from_page to_page of
                  Inl e \<Rightarrow> Inl e
                | Inr db' \<Rightarrow>
                    Inr (db', Moved_page (title from_page) (page_id from_page)
                                (title to_page) (page_id to_page)))))"

definition sample_tree :: "page list" where
  "sample_tree =
     [Page 1 ''Root'' ''root'' []
        [Page 2 ''Home'' ''home'' ''stale''
           [Page 3 ''About'' ''about'' [] []],
         Page 4 ''Blog'' ''blog'' ''/blog/'' []]]"

section \<open>Properties of the listing filters\<close>

text \<open>
  C5. When \<open>has_children\<close> is present and parses as true, the filter returns
  exactly the rows whose child count is positive (in the queryset's order);
  when it parses as false, exactly the rows whose child count is zero.
\<close>

theorem C5_has_children_filter:
  assumes "GET ''has_children'' = Some v"
  shows "(parse_boolean' v = Some True \<longrightarrow>
            HasChildrenFilter_filter_queryset parse_boolean' GET queryset
              = Inr (filter (\<lambda>p. 0 < numchild p) queryset))
       \<and> (parse_boolean' v = Some False \<longrightarrow>
            HasChildrenFilter_filter_queryset parse_boolean' GET queryset
              = Inr (filter (\<lambda>p. numchild p = 0) queryset))"
  using assms by (simp add: HasChildrenFilter_filter_queryset_def)

theorem C5_has_children_filter_witness:
  "HasChildrenFilter_filter_queryset parse_boolean [''has_children'' \<mapsto> ''true''] sample_listing
     = Inr [\<lparr>listed_id = 1, numchild = 2, for_explorer = True\<rparr>]
   \<and> HasChildrenFilter_filter_queryset parse_boolean [''has_children'' \<mapsto> ''false''] sample_listing
     = Inr [\<lparr>listed_id = 2, numchild = 0, for_explorer = False\<rparr>,
            \<lparr>listed_id = 3, numchild = 0, for_explorer = True\<rparr>]"
  using C5_has_children_filter
          [of "[''has_children'' \<mapsto> ''true'']" "''true''" parse_boolean sample_listing]
        C5_has_children_filter
          [of "[''has_children'' \<mapsto> ''false'']" "''false''" parse_boolean sample_listing]
  by (simp add: parse_boolean_def sample_listing_def)

text \<open>
  C6. When \<open>has_children\<close> (respectively \<open>for_explorer\<close>) is present and the
  parser rejects its value, \<open>filter_queryset\<close> raises \<open>BadRequestError\<close> with
  the message naming the parameter and the accepted encodings; no queryset,
  filtered or not, is returned.
\<close>

theorem C6_unparseable_value_is_bad_request:
  "(GET ''has_children'' = Some v \<and> parse_boolean' v = None \<longrightarrow>
      HasChildrenFilter_filter_queryset parse_boolean' GET queryset
        = Inl (BadRequestError (''has_children must be '' @ quoted ''true'' @ '' or ''
                                 @ quoted ''false'')))
   \<and> (GET ''for_explorer'' = Some w \<and> parse_boolean' w = None \<longrightarrow>
      ForExplorerFilter_filter_queryset parse_boolean' GET queryset
        = Inl (BadRequestError (''for_explorer must be '' @ quoted ''true'' @ '' or ''
                                 @ quoted ''false'')))"
  by (simp add: HasChildrenFilter_filter_queryset_def ForExplorerFilter_filter_queryset_def
        must_be_true_or_false_def)

theorem C6_unparseable_value_is_bad_request_witness:
  "HasChildrenFilter_filter_queryset parse_boolean
       [''has_children'' \<mapsto> ''yes'', ''for_explorer'' \<mapsto> ''2''] sample_listing
     = Inl (BadRequestError (''has_children must be '' @ [CHR 0x27] @ ''true'' @ [CHR 0x27]
                              @ '' or '' @ [CHR 0x27] @ ''false'' @ [CHR 0x27]))
   \<and> ForExplorerFilter_filter_queryset parse_boolean
       [''has_children'' \<mapsto> ''yes'', ''for_explorer'' \<mapsto> ''2''] sample_listing
     = Inl (BadRequestError (''for_explorer must be '' @ [CHR 0x27] @ ''true'' @ [CHR 0x27]
                              @ '' or '' @ [CHR 0x27] @ ''false'' @ [CHR 0x27]))"
  using C6_unparseable_value_is_bad_request
          [of "[''has_children'' \<mapsto> ''yes'', ''for_explorer'' \<mapsto> ''2'']" "''yes''"
              parse_boolean sample_listing "''2''"]
  by (simp add: parse_boolean_def quoted_def)

text \<open>
  C10. \<open>ForExplorerFilter.filter_queryset\<close> returns the queryset unchanged when
  \<open>for_explorer\<close> is absent and when it is present and parses as false;
  \<open>HasChildrenFilter.filter_queryset\<close> returns the queryset unchanged when
  \<open>has_children\<close> is absent.
\<close>

theorem C10_filters_leave_queryset_unchanged:
  "(GET ''for_explorer'' = None \<longrightarrow>
      ForExplorerFilter_filter_queryset parse_boolean' GET queryset = Inr queryset)
   \<and> (GET ''for_explorer'' = Some v \<and> parse_boolean' v = Some False \<longrightarrow>
      ForExplorerFilter_filter_queryset parse_boolean' GET queryset = Inr queryset)
   \<and> (GET ''has_children'' = None \<longrightarrow>
      HasChildrenFilter_filter_queryset parse_boolean' GET queryset = Inr queryset)"
  by (simp add: HasChildrenFilter_filter_queryset_def ForExplorerFilter_filter_queryset_def)

theorem C10_filters_leave_queryset_unchanged_witness:
  "ForExplorerFilter_filter_queryset parse_boolean Map.empty sample_listing = Inr sample_listing
   \<and> ForExplorerFilter_filter_queryset parse_boolean [''for_explorer'' \<mapsto> ''false'']
        sample_listing = Inr sample_listing
   \<and> HasChildrenFilter_filter_queryset parse_boolean [''for_explorer'' \<mapsto> ''false'']
        sample_listing = Inr sample_listing"
  using C10_filters_leave_queryset_unchanged
          [of Map.empty parse_boolean sample_listing "''false''"]
        C10_filters_leave_queryset_unchanged
          [of "[''for_explorer'' \<mapsto> ''false'']" parse_boolean sample_listing "''false''"]
  by (simp add: parse_boolean_def)

section \<open>Properties of the mail module\<close>

lemma exclude_pk_excludes: "\<forall>u \<in> set (exclude_pk k qs). pk u \<noteq> k"
  by (simp add: exclude_pk_def)

lemma approval_excludes_triggering_user:
  "\<forall>u \<in> set (WorkflowStateApproval_get_recipient_users ws (Some t)). pk u \<noteq> pk t"
  by (simp add: WorkflowStateApproval_get_recipient_users_def differs_from_def Let_def)

lemma rejection_excludes_triggering_user:
  "\<forall>u \<in> set (WorkflowStateRejection_get_recipient_users ws (Some t)). pk u \<noteq> pk t"
  by (simp add: WorkflowStateRejection_get_recipient_users_def differs_from_def Let_def)

lemma group_approval_excludes_triggering_user:
  "\<forall>u \<in> set (BaseGroupApprovalTaskState_get_recipient_users fw gs (Some t)). pk u \<noteq> pk t"
  by (simp add: BaseGroupApprovalTaskState_get_recipient_users_def exclude_pk_def Let_def)

lemma submission_ignores_triggering_user:
  "WorkflowStateSubmission_get_recipient_users fw triggering_user
     = (if include_superusers fw then filter_is_superuser fw else [])"
  by (simp add: WorkflowStateSubmission_get_recipient_users_def objects_none_def Let_def)

lemma submission_keeps_triggering_superuser:
  assumes "t \<in> set (auth_users fw)" and "is_superuser t" and "include_superusers fw"
  shows "t \<in> set (WorkflowStateSubmission_get_recipient_users fw (Some t))"
  using assms by (simp add: submission_ignores_triggering_user filter_is_superuser_def)

text \<open>
  C1. The recipient set is meant to exclude the triggering user. The
  submission notifier for workflow states does not: with superusers included
  (the default) and the superuser \<open>alice\<close> as the triggering user,
  \<open>get_recipient_users\<close> returns \<open>alice\<close> herself, whereas the group approval
  notifier, on the same table and with the same triggering user, leaves her out.
\<close>

theorem C1_submission_returns_triggering_user:
  "get_recipient_users sample_framework WorkflowStateSubmissionEmailNotifier
       (A_WorkflowState sample_workflow_state) (Some alice) = Inr [alice]
   \<and> get_recipient_users sample_framework GroupApprovalTaskStateSubmissionEmailNotifier
       (A_TaskState sample_task_state) (Some alice) = Inr [bob, carol]"
  by (simp add: submission_ignores_triggering_user include_superusers_def
        filter_is_superuser_def sample_framework_def alice_def bob_def carol_def
        sample_task_state_def BaseGroupApprovalTaskState_get_recipient_users_def
        filter_groups_in_def queryset_or_def exclude_pk_def)

text \<open>
  C7. When the notifier can handle the instance and the set of valid
  recipients is empty, the call returns \<open>True\<close> and the outbox is unchanged.
  When no recipient user has an email address, \<open>send_notification\<close> returns
  with the outbox unchanged.
\<close>

theorem C7_no_recipients_no_message:
  "(can_handle n inst \<and> get_valid_recipients fw n inst kw_user = Inr [] \<longrightarrow>
      call fw n inst kw_user sent = (Inr (PyBool True), sent)
      \<and> truthy (PyBool True))
   \<and> ((\<forall>u \<in> set recipient_users. email u = []) \<longrightarrow>
      send_notification fw recipient_users notification' extra_context sent
        = (Inr PyNone, sent))"
  by (simp add: call_def send_notification_def filter_empty_conv)

theorem C7_no_recipients_no_message_witness:
  "call sample_framework WorkflowStateApprovalEmailNotifier
       (A_WorkflowState sample_workflow_state) (Some bob) [] = (Inr (PyBool True), [])
   \<and> send_notification sample_framework [carol] ''approved_moderation'' Map.empty []
       = (Inr PyNone, [])"
  using C7_no_recipients_no_message
          [of WorkflowStateApprovalEmailNotifier "A_WorkflowState sample_workflow_state"
              sample_framework "Some bob" "[]" "[carol]" "''approved_moderation''" Map.empty]
  by (simp add: WorkflowStateApproval_get_recipient_users_def differs_from_def
        sample_workflow_state_def carol_def)

text \<open>
  C8. For a notification name other than \<open>submitted_for_moderation\<close>,
  \<open>approved_moderation\<close> and \<open>rejected_moderation\<close>,
  \<open>send_moderation_notification\<close> raises \<open>ValueError\<close> and the outbox is
  unchanged. For the three names it notifies the users that
  \<open>users_with_page_permission\<close> returns for the permission \<open>change\<close>,
  \<open>publish\<close> and \<open>change\<close> respectively, on the revision's page and with the
  excluded user passed on.
\<close>

theorem C8_moderation_notification_names:
  "(notification' \<notin> {''submitted_for_moderation'', ''approved_moderation'',
                       ''rejected_moderation''} \<longrightarrow>
      send_moderation_notification fw revision' notification' excluded_user sent
        = (Inl (ValueError ''Unknown notification type''), sent))
   \<and> send_moderation_notification fw revision' ''submitted_for_moderation'' excluded_user sent
       = send_notification fw
           (users_with_page_permission fw ''change'' (revision_page revision') excluded_user)
           ''submitted_for_moderation'' (moderation_context fw revision') sent
   \<and> send_moderation_notification fw revision' ''approved_moderation'' excluded_user sent
       = send_notification fw
           (users_with_page_permission fw ''publish'' (revision_page revision') excluded_user)
           ''approved_moderation'' (moderation_context fw revision') sent
   \<and> send_moderation_notification fw revision' ''rejected_moderation'' excluded_user sent
       = send_notification fw
           (users_with_page_permission fw ''change'' (revision_page revision') excluded_user)
           ''rejected_moderation'' (moderation_context fw revision') sent"
  by (simp add: send_moderation_notification_def)

theorem C8_moderation_notification_names_witness:
  "send_moderation_notification sample_framework sample_revision ''published'' (Some alice) []
     = (Inl (ValueError ''Unknown notification type''), [])"
  using C8_moderation_notification_names
          [of "''published''" sample_framework sample_revision "Some alice" "[]"]
  by simp

lemma send_mail_delivers:
  assumes "EmailMultiAlternatives fw s m
             (case f of None \<Rightarrow> DEFAULT_FROM_EMAIL fw | Some x \<Rightarrow> x) rs kw = Inr e"
      and "recipients_to e @ cc e @ bcc e \<noteq> []"
  shows "send_mail fw s m rs f kw sent
           = (Inr PyNone, sent @ [e\<lparr>extra_headers := [(''Auto-Submitted'', ''auto-generated'')]\<rparr>])"
  using assms by (simp add: send_mail_def email_send_def)

text \<open>
  C9. Whatever the subject, body, recipient list, sender and keyword
  arguments, \<open>send_mail\<close> keeps the messages already sent and every message it
  adds carries exactly the extra header \<open>Auto-Submitted: auto-generated\<close>.
\<close>

theorem C9_send_mail_auto_submitted_header:
  "take (length sent) (snd (send_mail fw s m rs f kw sent)) = sent
   \<and> (\<forall>e \<in> set (drop (length sent) (snd (send_mail fw s m rs f kw sent))).
         extra_headers e = [(''Auto-Submitted'', ''auto-generated'')])"
  by (simp add: send_mail_def email_send_def Let_def split: sum.splits)

theorem C9_send_mail_auto_submitted_header_witness:
  "snd (send_mail sample_framework ''Hello'' ''text'' [Address ''bob@example.com''] None [] [])
     = [\<lparr>subject = ''Hello'', body = ''text'', from_email = ''webmaster@localhost'',
         recipients_to = [Address ''bob@example.com''], cc = [], bcc = [],
         extra_headers = [(''Auto-Submitted'', ''auto-generated'')]\<rparr>]"
  using C9_send_mail_auto_submitted_header
          [of "[]" sample_framework "''Hello''" "''text''" "[Address ''bob@example.com'']"
              None "[]"]
  by (simp add: send_mail_def email_send_def sample_framework_def plain_message_def)

section \<open>Properties of the page tree commands\<close>

lemma set_subtree_fields [simp]:
  "page_id (set_subtree p par) = page_id p"
  "title (set_subtree p par) = title p"
  "slug (set_subtree p par) = slug p"
  by (cases p; simp add: Let_def)+

lemma url_path_set_subtree:
  "url_path (set_subtree p par) =
     (case par of None \<Rightarrow> ''/'' | Some q \<Rightarrow> url_path q @ slug p @ ''/'')"
  by (cases p) (simp add: Let_def split: option.splits)

lemma set_subtree_parent_cong:
  "url_path q = url_path q' \<Longrightarrow> set_subtree p (Some q) = set_subtree p (Some q')"
  by (cases p) (simp add: Let_def)

lemma set_subtree_twice: "set_subtree (set_subtree p par) par' = set_subtree p par'"
proof (induction p arbitrary: par par')
  case (Page i t s u cs)
  have "set_subtree (set_subtree c a) b = set_subtree c b" if "c \<in> set cs" for c a b
    using Page.IH that by simp
  then show ?case
    by (auto simp add: Let_def intro!: set_subtree_parent_cong)
qed



lemma ids_set_forest:
  "map page_id (all_pages (map (\<lambda>n. set_subtree n par) db)) = map page_id (all_pages db)"
  by (induction db arbitrary: par rule: all_pages.induct) (simp_all add: Let_def)

lemma edges_set_forest:
  "(a, b) \<in> set (parent_child (map (\<lambda>n. set_subtree n par) db))
     \<Longrightarrow> url_path b = url_path a @ slug b @ ''/''"
proof (induction db arbitrary: par rule: parent_child.induct)
  case 1
  then show ?case by simp
next
  case (2 i t s u cs ps)
  then show ?case
    by (auto simp add: Let_def url_path_set_subtree)
qed




lemma occurrences_simps [simp]:
  "occurrences k [] = 0"
  "occurrences k (Page i t s u cs # ps) =
     (if i = k then 1 else 0) + occurrences k cs + occurrences k ps"
  by (simp_all add: occurrences_def)




lemma objects_get_Inr_iff:
  "objects_get db k = Inr p \<longleftrightarrow> filter (\<lambda>q. page_id q = k) (all_pages db) = [p]"
  by (auto simp add: objects_get_def split: list.splits)




lemma objects_get_member:
  assumes "objects_get db k = Inr p"
  shows "p \<in> set (all_pages db) \<and> page_id p = k"
proof -
  have "p \<in> set (filter (\<lambda>q. page_id q = k) (all_pages db))"
    using assms by (simp add: objects_get_Inr_iff)
  then show ?thesis by simp
qed






lemma all_pages_roots_or_children:
  "set (all_pages db) = set db \<union> snd ` set (parent_child db)"
  by (induction db rule: all_pages.induct) (auto simp add: image_Un image_image)

lemma set_url_paths_keeps_rows:
  "map (\<lambda>p. (page_id p, title p, slug p)) (all_pages (set_url_paths_handle db))
     = map (\<lambda>p. (page_id p, title p, slug p)) (all_pages db)"
proof -
  have "map (\<lambda>p. (page_id p, title p, slug p)) (all_pages (map (\<lambda>n. set_subtree n par) xs))
          = map (\<lambda>p. (page_id p, title p, slug p)) (all_pages xs)" for par xs
    by (induction xs arbitrary: par rule: all_pages.induct) (simp_all add: Let_def)
  then show ?thesis by (simp add: set_url_paths_handle_def)
qed

lemma move_pages_handle_succeeds:
  assumes "objects_get db from_id = Inr fp" and "objects_get db to_id = Inr tp"
      and "to_id \<notin> set (map page_id (all_pages [fp]))"
  shows "\<exists>db' out. move_pages_handle db from_id to_id = Inr (db', out)"
  using assms objects_get_member[OF assms(2)]
  by (simp add: move_pages_handle_def Page_move_def)

text \<open>
  C2. Running the \<open>set_url_paths\<close> command on the tree it has produced gives
  the same tree again: every page keeps the \<open>url_path\<close> of the first run.
\<close>

theorem C2_set_url_paths_idempotent:
  "set_url_paths_handle (set_url_paths_handle db) = set_url_paths_handle db
   \<and> map url_path (all_pages (set_url_paths_handle (set_url_paths_handle db)))
       = map url_path (all_pages (set_url_paths_handle db))"
proof -
  have "set_url_paths_handle (set_url_paths_handle db) = set_url_paths_handle db"
    by (simp add: set_url_paths_handle_def set_subtree_twice o_def)
  then show ?thesis by simp
qed

theorem C2_set_url_paths_idempotent_witness:
  "set_url_paths_handle (set_url_paths_handle sample_tree) =
     [Page 1 ''Root'' ''root'' ''/''
        [Page 2 ''Home'' ''home'' ''/home/''
           [Page 3 ''About'' ''about'' ''/home/about/'' []],
         Page 4 ''Blog'' ''blog'' ''/blog/'' []]]"
  using C2_set_url_paths_idempotent [of sample_tree]
  by (simp add: set_url_paths_handle_def sample_tree_def Let_def)

text \<open>
  C3. After the \<open>set_url_paths\<close> command every root node has the \<open>url_path\<close>
  \<open>/\<close>, and every page that is the child of a page has the \<open>url_path\<close> of
  that parent followed by its own slug and \<open>/\<close>. The command keeps the rows,
  their ids, titles and slugs.
\<close>

theorem C3_set_url_paths_result:
  "(\<forall>r \<in> set (set_url_paths_handle db). url_path r = ''/'')
   \<and> (\<forall>(p, c) \<in> set (parent_child (set_url_paths_handle db)).
         url_path c = url_path p @ slug c @ ''/'')
   \<and> map (\<lambda>p. (page_id p, title p, slug p)) (all_pages (set_url_paths_handle db))
       = map (\<lambda>p. (page_id p, title p, slug p)) (all_pages db)"
proof (intro conjI)
  show "\<forall>r \<in> set (set_url_paths_handle db). url_path r = ''/''"
    by (auto simp add: set_url_paths_handle_def url_path_set_subtree)
  show "\<forall>(p, c) \<in> set (parent_child (set_url_paths_handle db)).
          url_path c = url_path p @ slug c @ ''/''"
    using edges_set_forest unfolding set_url_paths_handle_def by blast
  show "map (\<lambda>p. (page_id p, title p, slug p)) (all_pages (set_url_paths_handle db))
          = map (\<lambda>p. (page_id p, title p, slug p)) (all_pages db)"
    by (rule set_url_paths_keeps_rows)
qed

theorem C3_set_url_paths_result_witness:
  "set_url_paths_handle sample_tree =
     [Page 1 ''Root'' ''root'' ''/''
        [Page 2 ''Home'' ''home'' ''/home/''
           [Page 3 ''About'' ''about'' ''/home/about/'' []],
         Page 4 ''Blog'' ''blog'' ''/blog/'' []]]
   \<and> map url_path (set_url_paths_handle sample_tree) = [''/'']
   \<and> map (\<lambda>(p, c). (url_path p, slug c, url_path c))
         (parent_child (set_url_paths_handle sample_tree))
       = [(''/'', ''home'', ''/home/''), (''/'', ''blog'', ''/blog/''),
          (''/home/'', ''about'', ''/home/about/'')]"
  using C3_set_url_paths_result [of sample_tree]
  by (simp add: set_url_paths_handle_def sample_tree_def Let_def)


text \<open>
  The command succeeds exactly when both pages are found and the target
  lies outside the subtree of the page to move.
\<close>

lemma move_pages_handle_succeeds_iff:
  "(\<exists>db' out. move_pages_handle db from_id to_id = Inr (db', out))
     \<longleftrightarrow> (\<exists>fp tp. objects_get db from_id = Inr fp \<and> objects_get db to_id = Inr tp
                  \<and> to_id \<notin> set (map page_id (all_pages [fp])))"
proof
  assume "\<exists>db' out. move_pages_handle db from_id to_id = Inr (db', out)"
  then obtain db' out fp tp where
    fp: "objects_get db from_id = Inr fp" and tp: "objects_get db to_id = Inr tp"
    and mv: "Page_move db fp tp = Inr db'"
    by (auto simp add: move_pages_handle_def split: sum.splits)
  from mv have "page_id tp \<notin> set (map page_id (all_pages [fp]))"
    by (simp add: Page_move_def split: if_splits)
  with fp tp objects_get_member[OF tp] show
    "\<exists>fp tp. objects_get db from_id = Inr fp \<and> objects_get db to_id = Inr tp
        \<and> to_id \<notin> set (map page_id (all_pages [fp]))"
    by auto
next
  assume "\<exists>fp tp. objects_get db from_id = Inr fp \<and> objects_get db to_id = Inr tp
        \<and> to_id \<notin> set (map page_id (all_pages [fp]))"
  then show "\<exists>db' out. move_pages_handle db from_id to_id = Inr (db', out)"
    using move_pages_handle_succeeds by blast
qed

text \<open>No page can have the path that it would have as a child of itself.\<close>

lemma own_child_path_impossible: "url_path p \<noteq> url_path p @ slug p @ ''/''"
proof
  assume "url_path p = url_path p @ slug p @ ''/''"
  then have "length (url_path p) = length (url_path p @ slug p @ ''/'')" by simp
  then show False by simp
qed




end
